theory Spec2Isabelle
  imports Main
begin

section \<open>Data model\<close>

text \<open>
  A query result is a pandas DataFrame: an ordered sequence of named columns, each with a
  storage type and its cells. Only what \<open>big_query_bugs.py\<close> inspects is kept: the
  column names, whether the storage type is a number type, the generic \<open>object\<close> type or
  anything else (booleans, timestamps), and the cells of a column. Text is stored in
  \<open>object\<close> columns, as \<open>to_dataframe\<close> gives it; a cell is a number (kept as
  an integer: the value of a number is never inspected), a text or a missing value.
\<close>

datatype cell = Num int | Text string | Missing

datatype dtype = Number | Object | Other

record column =
  cname :: string
  dtype :: dtype
  cells :: "cell list"

type_synonym dataframe = "column list"

text \<open>
  The BigQuery client is an external collaborator. A handle carries the answers of the
  remote calls the program makes; \<open>Inl e\<close> is a raised exception whose text
  (\<open>str(e)\<close>) is \<open>e\<close>. \<open>query_and_wait\<close> stands for \<open>client.query_and_wait(q)\<close>
  followed by \<open>rows.to_dataframe()\<close>, both inside the same \<open>try\<close>.
\<close>

record client =
  project :: string
  list_datasets :: "string + string list"
  query_and_wait :: "string \<Rightarrow> string + dataframe"
  get_table :: "string \<Rightarrow> string + (string \<times> string \<times> string) list"

text \<open>The status elements the program writes to the page.\<close>

datatype message = StError string | StWarning string | StInfo string | StSuccess string

type_synonym query_result = "dataframe option \<times> string option"

text \<open>
  \<open>st.session_state\<close> with the keys of \<open>init_state\<close> (and \<open>last_schema\<close>,
  \<open>main_query_text\<close>, which are created later: \<open>None\<close> in \<open>last_schema\<close> is
  the absent key), together with what lives outside the session: the two memoisation
  stores of \<open>st.cache_data\<close> and \<open>st.cache_resource\<close>, the status elements shown
  so far, and the queries dispatched to the warehouse so far. A memoised entry holds the
  returned value and the status elements the call emitted, which are shown again on a hit.
\<close>

record app =
  client :: "client option"
  user_key_json :: "string option"
  selected_dataset :: "string option"
  schema :: dataframe
  selected_table :: "string option"
  main_query_text :: "string option"
  initial_df :: "dataframe option"
  query_error :: "string option"
  plot_ready :: bool
  chart_x :: "string option"
  chart_y :: "string option"
  chart_type_selected :: "string option"
  full_dataset_path :: "string option"
  last_schema :: "string list option"
  run_query_cache :: "string \<rightharpoonup> query_result \<times> message list"
  get_dynamic_client_cache :: "string \<rightharpoonup> client option \<times> message list"
  shown :: "message list"
  sent :: "string list"

definition init_state :: app where
  "init_state =
     \<lparr> client = None, user_key_json = None, selected_dataset = None,
       schema = [\<lparr> cname = ''table_id'', dtype = Object, cells = [] \<rparr>],
       selected_table = None, main_query_text = None, initial_df = None,
       query_error = None, plot_ready = False, chart_x = None, chart_y = None,
       chart_type_selected = None, full_dataset_path = None, last_schema = None,
       run_query_cache = Map.empty, get_dynamic_client_cache = Map.empty,
       shown = [], sent = [] \<rparr>"

section \<open>Safe error message\<close>

definition newline :: string where
  "newline = [CHR 0x0A]"

fun join_lines :: "string list \<Rightarrow> string" where
  "join_lines [] = []"
| "join_lines [l] = l"
| "join_lines (l # ls) = l @ newline @ join_lines ls"

definition safe_message :: "string \<Rightarrow> string" where
  "safe_message context = join_lines
     [ '''',
       ''        Something went wrong while processing your request.'',
       '''',
       ''        **Context:** '' @ context,
       '''',
       ''        This may be due to:'',
       ''        - Temporary connection issues  '',
       ''        - Missing or invalid credentials  '',
       ''        - Insufficient permissions  '',
       ''        - An unexpected BigQuery response  '',
       '''',
       ''        Please try again or contact the app administrator if the issue persists.'',
       ''        '' ]"

definition st_show :: "message \<Rightarrow> app \<Rightarrow> app" where
  "st_show m s = s\<lparr> shown := shown s @ [m] \<rparr>"

text \<open>The \<open>error\<close> argument is not used by the body: only the context is printed.\<close>

definition safe_bigquery_error :: "'e \<Rightarrow> string \<Rightarrow> app \<Rightarrow> app" where
  "safe_bigquery_error error context s = st_show (StError (safe_message context)) s"

section \<open>Run query\<close>

definition no_client_message :: string where
  "no_client_message = ''No BigQuery client available.''"

text \<open>The body of \<open>run_query\<close>, below the decorator.\<close>

definition run_query_body :: "string \<Rightarrow> app \<Rightarrow> query_result \<times> app" where
  "run_query_body query s =
     (case client s of
        None \<Rightarrow> ((None, Some no_client_message), s)
      | Some c \<Rightarrow>
          (let s1 = s\<lparr> sent := sent s @ [query] \<rparr> in
           case query_and_wait c query of
             Inr df \<Rightarrow> ((Some df, None), s1)
           | Inl e \<Rightarrow> ((None, Some e), safe_bigquery_error e ''Running SQL query'' s1)))"

text \<open>
  \<open>@st.cache_data\<close>: the store is keyed by the argument, the query text. A hit returns
  the stored value and shows the stored status elements again; a miss runs the body and
  stores what it returned and showed.
\<close>

definition run_query :: "string \<Rightarrow> app \<Rightarrow> query_result \<times> app" where
  "run_query query s =
     (case run_query_cache s query of
        Some (r, ms) \<Rightarrow> (r, s\<lparr> shown := shown s @ ms \<rparr>)
      | None \<Rightarrow>
          (let (r, s1) = run_query_body query s;
               ms = drop (length (shown s)) (shown s1)
           in (r, s1\<lparr> run_query_cache := (run_query_cache s1)(query \<mapsto> (r, ms)) \<rparr>)))"

section \<open>BigQuery client\<close>

text \<open>
  \<open>json.loads\<close>, \<open>Credentials.from_service_account_info\<close> and
  \<open>bigquery.Client\<close> belong to external libraries: \<open>construct\<close> is their
  composition, \<open>Inl e\<close> when one of them raises with text \<open>e\<close>.
\<close>

definition get_dynamic_client_body ::
  "(string \<Rightarrow> string + client) \<Rightarrow> string \<Rightarrow> app \<Rightarrow> client option \<times> app" where
  "get_dynamic_client_body construct user_json s =
     (case construct user_json of
        Inr c \<Rightarrow> (Some c, s)
      | Inl e \<Rightarrow> (None, st_show (StError (''Invalid credentials: '' @ e)) s))"

text \<open>\<open>@st.cache_resource\<close>: keyed by the raw key text.\<close>

definition get_dynamic_client ::
  "(string \<Rightarrow> string + client) \<Rightarrow> string \<Rightarrow> app \<Rightarrow> client option \<times> app" where
  "get_dynamic_client construct user_json s =
     (case get_dynamic_client_cache s user_json of
        Some (r, ms) \<Rightarrow> (r, s\<lparr> shown := shown s @ ms \<rparr>)
      | None \<Rightarrow>
          (let (r, s1) = get_dynamic_client_body construct user_json s;
               ms = drop (length (shown s)) (shown s1)
           in (r, s1\<lparr> get_dynamic_client_cache :=
                         (get_dynamic_client_cache s1)(user_json \<mapsto> (r, ms)) \<rparr>)))"

definition user_key_handler ::
  "(string \<Rightarrow> string + client) \<Rightarrow> string \<Rightarrow> app \<Rightarrow> bool \<times> app" where
  "user_key_handler construct key s =
     (if key = [] then
        (False, st_show (StError ''No key provided. Please paste your BigQuery key.'') s)
      else
        (let (c, s1) = get_dynamic_client construct key (s\<lparr> user_key_json := Some key \<rparr>)
         in case c of
              Some h \<Rightarrow>
                (True, (st_show (StSuccess ''Key saved successfully'') s1)
                         \<lparr> client := Some h, user_key_json := None \<rparr>)
            | None \<Rightarrow>
                (False, st_show (StError ''Invalid credentials. Please try again.'') s1)))"

section \<open>Helpers\<close>

definition get_all_datasets :: "app \<Rightarrow> string + string list" where
  "get_all_datasets s =
     (case client s of None \<Rightarrow> Inr [] | Some c \<Rightarrow> list_datasets c)"

text \<open>Python truthiness of an optional string: \<open>None\<close> and the empty text are false.\<close>

definition truthy :: "string option \<Rightarrow> bool" where
  "truthy x = (case x of None \<Rightarrow> False | Some t \<Rightarrow> t \<noteq> [])"

definition digit :: "nat \<Rightarrow> char" where
  "digit d = char_of (48 + d)"

fun str_nat :: "nat \<Rightarrow> string" where
  "str_nat n = (if n < 10 then [digit n] else str_nat (n div 10) @ [digit (n mod 10)])"

definition str_int :: "int \<Rightarrow> string" where
  "str_int i = (if i < 0 then ''-'' @ str_nat (nat (- i)) else str_nat (nat i))"

text \<open>\<open>astype(str)\<close> on one cell; a missing number prints as \<open>nan\<close>.\<close>

definition str_cell :: "dtype \<Rightarrow> cell \<Rightarrow> string" where
  "str_cell d v =
     (case v of
        Num i \<Rightarrow> str_int i
      | Text t \<Rightarrow> t
      | Missing \<Rightarrow> (if d = Number then ''nan'' else ''None''))"

definition astype_str :: "dataframe \<Rightarrow> dataframe" where
  "astype_str df =
     map (\<lambda>c. c\<lparr> dtype := Object, cells := map (\<lambda>v. Text (str_cell (dtype c) v)) (cells c) \<rparr>) df"

definition rename_column :: "string \<Rightarrow> string \<Rightarrow> dataframe \<Rightarrow> dataframe" where
  "rename_column old new df =
     map (\<lambda>c. if cname c = old then c\<lparr> cname := new \<rparr> else c) df"

definition schema_query :: "string \<Rightarrow> string" where
  "schema_query dataset = join_lines
     [ '''',
       ''        SELECT table_name'',
       ''        FROM `bigquery-public-data.'' @ dataset @ ''.INFORMATION_SCHEMA.TABLES`'',
       ''    '' ]"

definition empty_schema :: dataframe where
  "empty_schema = [\<lparr> cname = ''table_id'', dtype = Object, cells = [] \<rparr>]"

definition get_schema :: "string \<Rightarrow> app \<Rightarrow> dataframe \<times> app" where
  "get_schema dataset s =
     (let ((df, error), s1) = run_query (schema_query dataset) s in
      case df of
        Some d \<Rightarrow>
          (if truthy error then
             (empty_schema,
              safe_bigquery_error error ''Loading dataset schema'' (s1\<lparr> query_error := error \<rparr>))
           else (astype_str (rename_column ''table_name'' ''table_id'' d), s1))
      | None \<Rightarrow>
          (empty_schema,
           safe_bigquery_error error ''Loading dataset schema'' (s1\<lparr> query_error := error \<rparr>)))"

section \<open>Schema change detector\<close>

text \<open>
  The argument \<open>None\<close> is a value that is \<open>None\<close> or has no \<open>columns\<close>
  attribute; \<open>last_schema s = None\<close> is the key \<open>last_schema\<close> not being in the
  session.
\<close>

definition detect_schema_change :: "dataframe option \<Rightarrow> app \<Rightarrow> bool \<times> app" where
  "detect_schema_change df s =
     (case df of
        None \<Rightarrow> (False, s)
      | Some d \<Rightarrow>
          (let cols = map cname d in
           case last_schema s of
             None \<Rightarrow> (True, s\<lparr> last_schema := Some cols \<rparr>)
           | Some old \<Rightarrow>
               (if old \<noteq> cols then (True, s\<lparr> last_schema := Some cols \<rparr>)
                else (False, s))))"

section \<open>Plotting\<close>

datatype mark = Point | Line | Bar

datatype colour = ColourField string | ColourValue string

record chart =
  mark :: mark
  x_enc :: string
  x_title :: string
  y_enc :: string
  y_title :: string
  colour :: colour
  tooltip :: "string list"
  title :: string

definition encode ::
  "mark \<Rightarrow> string \<Rightarrow> string \<Rightarrow> string option \<Rightarrow> string \<Rightarrow> string \<Rightarrow> chart" where
  "encode m x y legend x_type y_type =
     \<lparr> mark = m,
       x_enc = x @ '':'' @ x_type, x_title = x,
       y_enc = y @ '':'' @ y_type, y_title = y,
       colour = (case legend of
                   None \<Rightarrow> ColourValue ''steelblue''
                 | Some f \<Rightarrow> (if f \<noteq> [] then ColourField f else ColourValue ''steelblue'')),
       tooltip = [x, y],
       title = [] \<rparr>"

definition make_scatter_chart ::
  "string \<Rightarrow> string \<Rightarrow> string option \<Rightarrow> string \<Rightarrow> string \<Rightarrow> chart" where
  "make_scatter_chart x y legend x_type y_type = encode Point x y legend x_type y_type"

definition make_line_chart ::
  "string \<Rightarrow> string \<Rightarrow> string option \<Rightarrow> string \<Rightarrow> string \<Rightarrow> chart" where
  "make_line_chart x y legend x_type y_type = encode Line x y legend x_type y_type"

definition make_bar_chart ::
  "string \<Rightarrow> string \<Rightarrow> string option \<Rightarrow> string \<Rightarrow> string \<Rightarrow> chart" where
  "make_bar_chart x y legend x_type y_type = encode Bar x y legend x_type y_type"

text \<open>
  \<open>pd.to_numeric(column, errors="ignore")\<close> on a column of storage type \<open>object\<close>.
  pandas' parser of numeric text is external: \<open>numeric t\<close> is the number it reads from
  the text \<open>t\<close>, \<open>None\<close> when it rejects \<open>t\<close>. A missing value converts (to NaN).
  When one cell is rejected the column is returned as it was.
\<close>

definition coerce_cell :: "(string \<Rightarrow> int option) \<Rightarrow> cell \<Rightarrow> cell option" where
  "coerce_cell numeric v =
     (case v of
        Num i \<Rightarrow> Some (Num i)
      | Missing \<Rightarrow> Some Missing
      | Text t \<Rightarrow> map_option Num (numeric t))"

definition to_numeric_ignore :: "(string \<Rightarrow> int option) \<Rightarrow> column \<Rightarrow> column" where
  "to_numeric_ignore numeric c =
     (if list_all (\<lambda>v. coerce_cell numeric v \<noteq> None) (cells c)
      then c\<lparr> dtype := Number, cells := map (\<lambda>v. the (coerce_cell numeric v)) (cells c) \<rparr>
      else c)"

text \<open>The loop over the columns of the copy, and its body.\<close>

definition coerce_column :: "(string \<Rightarrow> int option) \<Rightarrow> column \<Rightarrow> column" where
  "coerce_column numeric c = (if dtype c = Object then to_numeric_ignore numeric c else c)"

definition coerce_columns :: "(string \<Rightarrow> int option) \<Rightarrow> dataframe \<Rightarrow> dataframe" where
  "coerce_columns numeric df = map (coerce_column numeric) df"

definition numeric_cols :: "dataframe \<Rightarrow> string list" where
  "numeric_cols df = map cname (filter (\<lambda>c. dtype c = Number) df)"

definition categorical_cols :: "dataframe \<Rightarrow> string list" where
  "categorical_cols df = map cname (filter (\<lambda>c. dtype c \<noteq> Number) df)"

definition axis_type :: "dataframe \<Rightarrow> string \<Rightarrow> string" where
  "axis_type df a = (if a \<in> set (numeric_cols df) then ''Q'' else ''N'')"

definition legend_field :: "dataframe \<Rightarrow> string \<Rightarrow> string \<Rightarrow> string option" where
  "legend_field df x y =
     (if x \<in> set (categorical_cols df) then Some x
      else if y \<in> set (categorical_cols df) then Some y
      else None)"

text \<open>\<open>df.empty\<close>: no column or no row.\<close>

definition empty_frame :: "dataframe \<Rightarrow> bool" where
  "empty_frame df = (case df of [] \<Rightarrow> True | c # _ \<Rightarrow> cells c = [])"

datatype plot = Plotted chart | Warned string | PlotRaised string

text \<open>
  The axis names and the chart kind come from the session and may be \<open>None\<close>. With
  two columns of one name, \<open>df[col]\<close> is a frame, which has no \<open>dtype\<close>.
\<close>

definition plotting_altair ::
  "(string \<Rightarrow> int option) \<Rightarrow> dataframe option \<Rightarrow> string option \<Rightarrow> string option \<Rightarrow>
   string option \<Rightarrow> plot" where
  "plotting_altair numeric df x y chart_type =
     (case df of
        None \<Rightarrow> Warned ''No data available to plot.''
      | Some d \<Rightarrow>
          if empty_frame d then Warned ''No data available to plot.''
          else
            (case (x, y) of
               (Some xn, Some yn) \<Rightarrow>
                 if xn \<notin> set (map cname d) \<or> yn \<notin> set (map cname d)
                 then Warned ''Invalid column selection.''
                 else if \<not> distinct (map cname d)
                 then PlotRaised ''AttributeError''
                 else
                   (let d1 = coerce_columns numeric d;
                        x_type = axis_type d1 xn;
                        y_type = axis_type d1 yn;
                        lf = legend_field d1 xn yn;
                        ch = (if chart_type = Some ''Scatter''
                              then make_scatter_chart xn yn lf x_type y_type
                              else if chart_type = Some ''Line''
                              then make_line_chart xn yn lf x_type y_type
                              else make_bar_chart xn yn lf x_type y_type)
                    in Plotted (ch\<lparr> title :=
                         (case chart_type of None \<Rightarrow> ''None'' | Some k \<Rightarrow> k) @ '' Chart'' \<rparr>))
             | _ \<Rightarrow> Warned ''Invalid column selection.''))"

definition render_plot_if_ready :: "(string \<Rightarrow> int option) \<Rightarrow> app \<Rightarrow> plot option" where
  "render_plot_if_ready numeric s =
     (if \<not> plot_ready s then None
      else Some (plotting_altair numeric (initial_df s) (chart_x s) (chart_y s)
                   (chart_type_selected s)))"

section \<open>SQL submit handler\<close>

text \<open>
  \<open>str.strip\<close> leaves nothing exactly when every character is white space. A text
  is the list of its UTF-8 bytes: the white space of ASCII is one byte, and the other
  white space of Python's \<open>str\<close> (U+0085, U+00A0, U+1680, U+2000 to U+200A, U+2028,
  U+2029, U+202F, U+205F, U+3000) is two or three bytes.
\<close>

definition is_space :: "char \<Rightarrow> bool" where
  "is_space c = (c \<in> set [CHR 0x20, CHR 0x09, CHR 0x0A, CHR 0x0B, CHR 0x0C, CHR 0x0D,
                           CHR 0x1C, CHR 0x1D, CHR 0x1E, CHR 0x1F])"

definition wide_spaces :: "string list" where
  "wide_spaces =
     [[CHR 0xC2, CHR 0x85], [CHR 0xC2, CHR 0xA0], [CHR 0xE1, CHR 0x9A, CHR 0x80],
      [CHR 0xE2, CHR 0x80, CHR 0x80], [CHR 0xE2, CHR 0x80, CHR 0x81],
      [CHR 0xE2, CHR 0x80, CHR 0x82], [CHR 0xE2, CHR 0x80, CHR 0x83],
      [CHR 0xE2, CHR 0x80, CHR 0x84], [CHR 0xE2, CHR 0x80, CHR 0x85],
      [CHR 0xE2, CHR 0x80, CHR 0x86], [CHR 0xE2, CHR 0x80, CHR 0x87],
      [CHR 0xE2, CHR 0x80, CHR 0x88], [CHR 0xE2, CHR 0x80, CHR 0x89],
      [CHR 0xE2, CHR 0x80, CHR 0x8A], [CHR 0xE2, CHR 0x80, CHR 0xA8],
      [CHR 0xE2, CHR 0x80, CHR 0xA9], [CHR 0xE2, CHR 0x80, CHR 0xAF],
      [CHR 0xE2, CHR 0x81, CHR 0x9F], [CHR 0xE3, CHR 0x80, CHR 0x80]]"

text \<open>The text without its first character, when that is white space.\<close>

definition strip_one :: "string \<Rightarrow> string option" where
  "strip_one t =
     (case t of
        [] \<Rightarrow> None
      | c # r \<Rightarrow>
          if is_space c then Some r
          else if take 2 t \<in> set wide_spaces then Some (drop 2 t)
          else if take 3 t \<in> set wide_spaces then Some (drop 3 t)
          else None)"

function all_space :: "string \<Rightarrow> bool" where
  "all_space t =
     (if t = [] then True
      else case strip_one t of None \<Rightarrow> False | Some r \<Rightarrow> all_space r)"
  by pat_completeness auto
termination
  by (relation "measure length") (auto simp: strip_one_def split: list.splits if_splits)

definition blank :: "string option \<Rightarrow> bool" where
  "blank q = (case q of None \<Rightarrow> True | Some t \<Rightarrow> all_space t)"

definition submit_handler_main :: "string \<Rightarrow> app \<Rightarrow> app" where
  "submit_handler_main sel s =
     (if blank (main_query_text s) then
        s\<lparr> initial_df := None, query_error := Some ''Please enter a SQL query.'' \<rparr>
      else
        (let ((df, error), s1) = run_query (the (main_query_text s)) s in
         if truthy error \<or> df = None then
           st_show (StError ''Query failed.'') (s1\<lparr> initial_df := None, query_error := error \<rparr>)
         else
           (let (changed, s2) = detect_schema_change df (s1\<lparr> initial_df := df \<rparr>) in
            if changed then
              s2\<lparr> chart_x := None, chart_y := None, chart_type_selected := None,
                  plot_ready := False \<rparr>
            else s2)))"

section \<open>Main view\<close>

text \<open>
  A select box returns the user's choice when it is one of the options and the first
  option otherwise; it is only drawn with options.
\<close>

definition selectbox :: "string list \<Rightarrow> string \<Rightarrow> string" where
  "selectbox options choice =
     (case options of
        [] \<Rightarrow> choice
      | first # _ \<Rightarrow> (if choice \<in> set options then choice else first))"

text \<open>
  \<open>df_schema["table_id"].tolist()\<close>; \<open>None\<close> when it raises: no column of
  that name (\<open>KeyError\<close>), or several, which select a frame, and a frame has no
  \<open>tolist\<close>.
\<close>

definition table_ids :: "dataframe \<Rightarrow> string list option" where
  "table_ids df =
     (case filter (\<lambda>c. cname c = ''table_id'') df of
        [c] \<Rightarrow> Some (map (str_cell (dtype c)) (cells c))
      | _ \<Rightarrow> None)"

definition show_table_preview :: "string \<Rightarrow> app \<Rightarrow> string option \<times> app" where
  "show_table_preview table_id s =
     (if \<not> truthy (selected_dataset s) then (None, st_show (StWarning ''No dataset selected.'') s)
      else
        (case client s of
           None \<Rightarrow> (Some ''AttributeError'', s)
         | Some c \<Rightarrow>
             (case get_table c (''bigquery-public-data.'' @ the (selected_dataset s) @ ''.'' @ table_id) of
                Inl e \<Rightarrow> (Some e, s)
              | Inr table \<Rightarrow> (None, s))))"

text \<open>
  The block that follows the dataset select box: when the selection differs from the
  stored one, it is stored, the table list is fetched and the selected table is unset.
\<close>

definition select_dataset :: "string \<Rightarrow> app \<Rightarrow> app" where
  "select_dataset sel s =
     (if Some sel \<noteq> selected_dataset s then
        (let (df, s') = get_schema sel (s\<lparr> selected_dataset := Some sel \<rparr>)
         in s'\<lparr> schema := df, selected_table := None \<rparr>)
      else s)"

text \<open>
  \<open>pick_dataset\<close> and \<open>pick_table\<close> are the user's choices in the two select boxes.
  The first component of the result is the text of an exception that left the function.
  The lines after \<open>show_table_preview\<close> draw the query box, the submit button and the
  current result; they write no key of the session but their own widgets'.
\<close>

definition build_main_view :: "string \<Rightarrow> string \<Rightarrow> app \<Rightarrow> string option \<times> app" where
  "build_main_view pick_dataset pick_table s =
     (case client s of
        None \<Rightarrow> (None, st_show (StInfo ''Paste your BigQuery key in the sidebar to begin.'') s)
      | Some c \<Rightarrow>
          (case get_all_datasets s of
             Inl e \<Rightarrow> (Some e, s)
           | Inr datasets \<Rightarrow>
               if datasets = [] then (None, st_show (StWarning ''No datasets available.'') s)
               else
                 (let s1 = select_dataset (selectbox datasets pick_dataset) s
                  in case table_ids (schema s1) of
                       None \<Rightarrow> (Some ''table_id'', s1)
                     | Some table_list \<Rightarrow>
                         if table_list = [] then
                           (None, st_show (StInfo ''No tables found in this dataset.'') s1)
                         else
                           (let selected = selectbox table_list pick_table
                            in show_table_preview selected (s1\<lparr> selected_table := Some selected \<rparr>)))))"

section \<open>Sessions\<close>

text \<open>
  The stores of \<open>st.cache_data\<close> and \<open>st.cache_resource\<close> belong to the
  process, not to a session: \<open>init_state\<close> in the source only fills the keys of a
  new session, and every session of the process reads and fills the same two stores.
  \<open>in_session u t\<close> is the session \<open>u\<close> (its keys and its page) taking its
  turn in the process \<open>t\<close> is in (its stores and its dispatch log).
\<close>

definition in_session :: "app \<Rightarrow> app \<Rightarrow> app" where
  "in_session u t =
     u\<lparr> run_query_cache := run_query_cache t,
        get_dynamic_client_cache := get_dynamic_client_cache t,
        sent := sent t \<rparr>"

text \<open>
  How the process moves on: each interaction saves a key, redraws the main view, submits
  the text of the query box, sets the chart widgets of the side bar, presses its Plot
  button, or (more than the pages do) calls \<open>run_query\<close> directly; or another
  session takes its turn, a new one (\<open>in_session init_state\<close>) or one met before,
  whose keys are left unconstrained. \<open>evolves construct s t\<close>: the process gets from
  \<open>s\<close> to \<open>t\<close> by such steps. A process starts with its first session in
  \<open>init_state\<close> and with empty stores.
\<close>

inductive evolves :: "(string \<Rightarrow> string + client) \<Rightarrow> app \<Rightarrow> app \<Rightarrow> bool"
  for construct :: "string \<Rightarrow> string + client" and s :: app where
  stay: "evolves construct s s"
| save_key: "evolves construct s t \<Longrightarrow> evolves construct s (snd (user_key_handler construct key t))"
| query: "evolves construct s t \<Longrightarrow> evolves construct s (snd (run_query q t))"
| view: "evolves construct s t \<Longrightarrow> evolves construct s (snd (build_main_view pd pt t))"
| submit: "evolves construct s t \<Longrightarrow>
     evolves construct s (submit_handler_main sel (t\<lparr> main_query_text := Some text \<rparr>))"
| pick_chart: "evolves construct s t \<Longrightarrow>
     evolves construct s (t\<lparr> chart_x := x, chart_y := y, chart_type_selected := kind \<rparr>)"
| plot: "evolves construct s t \<Longrightarrow> evolves construct s (t\<lparr> plot_ready := True \<rparr>)"
| switch: "evolves construct s t \<Longrightarrow> evolves construct s (in_session u t)"

definition reachable :: "(string \<Rightarrow> string + client) \<Rightarrow> app \<Rightarrow> bool" where
  "reachable construct s = evolves construct init_state s"

text \<open>Exactly one component of the pair is not \<open>None\<close>.\<close>

definition exactly_one :: "query_result \<Rightarrow> bool" where
  "exactly_one r = ((fst r = None) \<noteq> (snd r = None))"

text \<open>
  What the body of \<open>run_query\<close> returns for a client, or none, and a query text.
\<close>

definition answer :: "client option \<Rightarrow> string \<Rightarrow> query_result" where
  "answer co q =
     (case co of
        None \<Rightarrow> (None, Some no_client_message)
      | Some c \<Rightarrow>
          (case query_and_wait c q of
             Inr df \<Rightarrow> (Some df, None)
           | Inl e \<Rightarrow> (None, Some e)))"

text \<open>
  What every state of the process satisfies: a memoised query result is what the body
  returned for its query text with some client or with none; a memoised client is what
  \<open>construct\<close> gives for its key.
\<close>

definition inv :: "(string \<Rightarrow> string + client) \<Rightarrow> app \<Rightarrow> bool" where
  "inv construct s =
     ((\<forall>q r ms. run_query_cache s q = Some (r, ms) \<longrightarrow> (\<exists>co. r = answer co q)) \<and>
      (\<forall>k r ms. get_dynamic_client_cache s k = Some (r, ms) \<longrightarrow>
         r = (case construct k of Inl e \<Rightarrow> None | Inr c \<Rightarrow> Some c)))"

section \<open>Axis kinds as the specification words them\<close>

text \<open>
  A column is quantitative when every value coerces to a number: its storage type is a
  number type, or it is an \<open>object\<close> column whose every value is a number, is
  missing, or is text the parser reads as a number.
\<close>

definition numeric_looking :: "(string \<Rightarrow> int option) \<Rightarrow> cell \<Rightarrow> bool" where
  "numeric_looking numeric v =
     (case v of Num i \<Rightarrow> True | Missing \<Rightarrow> True | Text t \<Rightarrow> numeric t \<noteq> None)"

definition quantitative :: "(string \<Rightarrow> int option) \<Rightarrow> column \<Rightarrow> bool" where
  "quantitative numeric c =
     (dtype c = Number \<or> (dtype c = Object \<and> list_all (numeric_looking numeric) (cells c)))"

definition quantitative_axis :: "(string \<Rightarrow> int option) \<Rightarrow> dataframe \<Rightarrow> string \<Rightarrow> bool" where
  "quantitative_axis numeric df a = list_ex (\<lambda>c. cname c = a \<and> quantitative numeric c) df"

text \<open>The field a chart is coloured by, if any.\<close>

definition chart_legend :: "chart \<Rightarrow> string option" where
  "chart_legend ch = (case colour ch of ColourField f \<Rightarrow> Some f | ColourValue v \<Rightarrow> None)"

section \<open>Example inputs\<close>

text \<open>A parser of numeric text for the examples: unsigned decimal integers.\<close>

definition is_digit :: "char \<Rightarrow> bool" where
  "is_digit c = (48 \<le> (of_char c :: nat) \<and> (of_char c :: nat) \<le> 57)"

fun read_digits :: "nat \<Rightarrow> string \<Rightarrow> nat option" where
  "read_digits acc [] = Some acc"
| "read_digits acc (c # cs) =
     (if is_digit c then read_digits (10 * acc + (of_char c - 48)) cs else None)"

definition decimal :: "string \<Rightarrow> int option" where
  "decimal t = (if t = [] then None else map_option int (read_digits 0 t))"

text \<open>The result of \<open>SELECT 1 AS a, 2 AS b\<close>, and the same columns in the other order.\<close>

definition frame_ab :: dataframe where
  "frame_ab = [\<lparr> cname = ''a'', dtype = Number, cells = [Num 1] \<rparr>,
               \<lparr> cname = ''b'', dtype = Number, cells = [Num 2] \<rparr>]"

definition frame_ba :: dataframe where
  "frame_ba = [\<lparr> cname = ''b'', dtype = Number, cells = [Num 2] \<rparr>,
               \<lparr> cname = ''a'', dtype = Number, cells = [Num 1] \<rparr>]"

definition frame_score :: dataframe where
  "frame_score = [\<lparr> cname = ''score'', dtype = Object,
                     cells = [Text ''1'', Text ''2'', Text ''bad''] \<rparr>,
                  \<lparr> cname = ''n'', dtype = Object, cells = [Text ''10'', Text ''20'', Text ''30''] \<rparr>]"

definition frame_tables :: dataframe where
  "frame_tables = [\<lparr> cname = ''table_name'', dtype = Object, cells = [Text ''t1'', Text ''t2''] \<rparr>]"

text \<open>
  A client that answers one query and the table listings of its two datasets, and fails
  with the text \<open>boom\<close> on every other query.
\<close>

definition demo_client :: client where
  "demo_client =
     \<lparr> project = ''demo'',
       list_datasets = Inr [''d1'', ''d2''],
       query_and_wait = (\<lambda>q. if q = ''SELECT 1 AS a, 2 AS b'' then Inr frame_ab
                              else if q = schema_query ''d1'' then Inr frame_tables
                              else if q = schema_query ''d2'' then Inr frame_tables
                              else Inl ''boom''),
       get_table = (\<lambda>r. Inr []) \<rparr>"

text \<open>A client every query of which is refused.\<close>

definition denied_client :: client where
  "denied_client = demo_client\<lparr> query_and_wait := (\<lambda>q. Inl ''Insufficient permissions'') \<rparr>"

text \<open>A key store that accepts one key.\<close>

definition demo_construct :: "string \<Rightarrow> string + client" where
  "demo_construct key = (if key = ''good key'' then Inr demo_client else Inl ''bad key'')"

text \<open>
  A session in which a chart is drawn: the key is saved, the main view is drawn with the
  dataset \<open>d1\<close>, a query is submitted, and the side bar's widgets set the axes and
  the chart kind and its Plot button sets \<open>plot_ready\<close>.
\<close>

definition result_ready_state :: app where
  "result_ready_state =
     submit_handler_main ''d1''
       ((snd (build_main_view ''d1'' ''t1''
            (snd (user_key_handler demo_construct ''good key'' init_state))))
        \<lparr> main_query_text := Some ''SELECT 1 AS a, 2 AS b'' \<rparr>)"

definition chart_ready_state :: app where
  "chart_ready_state =
     result_ready_state\<lparr> chart_x := Some ''a'', chart_y := Some ''b'',
                         chart_type_selected := Some ''Bar'', plot_ready := True \<rparr>"

text \<open>
  A second session of the process, new and without a client, after a first session saved
  its key and ran a query.
\<close>

definition second_session_state :: app where
  "second_session_state =
     in_session init_state
       (snd (run_query ''SELECT 1 AS a, 2 AS b''
          (snd (user_key_handler demo_construct ''good key'' init_state))))"

section \<open>Frame and invariant lemmas\<close>

lemma inv_init: "inv construct init_state"
  by (simp add: inv_def init_state_def)

lemma inv_cong:
  "client t = client s \<Longrightarrow> run_query_cache t = run_query_cache s \<Longrightarrow>
   get_dynamic_client_cache t = get_dynamic_client_cache s \<Longrightarrow> inv construct s \<Longrightarrow> inv construct t"
  by (simp add: inv_def)

lemma inv_in_session: "inv construct t \<Longrightarrow> inv construct (in_session u t)"
  by (simp add: inv_def in_session_def)

lemma answer_exactly_one: "exactly_one (answer co q)"
  by (simp add: answer_def exactly_one_def split: option.splits sum.splits)

lemma run_query_body_answer: "fst (run_query_body q s) = answer (client s) q"
  by (simp add: run_query_body_def answer_def Let_def split: option.splits sum.splits)

lemma run_query_body_exactly_one: "exactly_one (fst (run_query_body q s))"
  by (simp add: run_query_body_def exactly_one_def Let_def safe_bigquery_error_def st_show_def
      split: option.splits sum.splits)

lemma run_query_body_frame:
  "client (snd (run_query_body q s)) = client s"
  "run_query_cache (snd (run_query_body q s)) = run_query_cache s"
  "get_dynamic_client_cache (snd (run_query_body q s)) = get_dynamic_client_cache s"
  by (simp_all add: run_query_body_def Let_def safe_bigquery_error_def st_show_def
      split: option.splits sum.splits)

lemma run_query_body_no_client:
  "client s = None \<Longrightarrow> run_query_body q s = ((None, Some no_client_message), s)"
  by (simp add: run_query_body_def)

lemma run_query_client [simp]: "client (snd (run_query q s)) = client s"
  by (simp add: run_query_def Let_def run_query_body_frame split: option.splits prod.splits)
   (metis run_query_body_frame(1) snd_conv)

lemma run_query_dyn [simp]:
  "get_dynamic_client_cache (snd (run_query q s)) = get_dynamic_client_cache s"
  by (simp add: run_query_def Let_def split: option.splits prod.splits)
   (metis run_query_body_frame(3) snd_conv)

lemma run_query_cache_after:
  "run_query_cache (snd (run_query q s)) =
     (case run_query_cache s q of
        Some e \<Rightarrow> run_query_cache s
      | None \<Rightarrow> (run_query_cache s)(q \<mapsto> (fst (run_query_body q s),
            drop (length (shown s)) (shown (snd (run_query_body q s))))))"
  by (auto simp: run_query_def Let_def split: option.splits prod.splits)
   (metis run_query_body_frame(2) snd_conv)+

lemma inv_run_query:
  assumes "inv construct s"
  shows "inv construct (snd (run_query q s))"
proof (cases "run_query_cache s q")
  case None
  have "\<exists>co. fst (run_query_body q s) = answer co q"
    using run_query_body_answer [of q s] by blast
  then show ?thesis
    using assms None unfolding inv_def
    by (auto simp: run_query_cache_after split: if_splits)
next
  case (Some e)
  then show ?thesis
    by (intro inv_cong [OF _ _ _ assms]) (simp_all add: run_query_cache_after)
qed


lemma run_query_keeps [simp]:
  "user_key_json (snd (run_query q s)) = user_key_json s"
  "selected_dataset (snd (run_query q s)) = selected_dataset s"
  "schema (snd (run_query q s)) = schema s"
  "selected_table (snd (run_query q s)) = selected_table s"
  "main_query_text (snd (run_query q s)) = main_query_text s"
  "initial_df (snd (run_query q s)) = initial_df s"
  "query_error (snd (run_query q s)) = query_error s"
  "plot_ready (snd (run_query q s)) = plot_ready s"
  "chart_x (snd (run_query q s)) = chart_x s"
  "chart_y (snd (run_query q s)) = chart_y s"
  "chart_type_selected (snd (run_query q s)) = chart_type_selected s"
  "last_schema (snd (run_query q s)) = last_schema s"
  by (simp_all add: run_query_def run_query_body_def Let_def safe_bigquery_error_def st_show_def
      split: option.splits sum.splits prod.splits)

lemma get_schema_keeps [simp]:
  "client (snd (get_schema d s)) = client s"
  "get_dynamic_client_cache (snd (get_schema d s)) = get_dynamic_client_cache s"
  "run_query_cache (snd (get_schema d s)) = run_query_cache (snd (run_query (schema_query d) s))"
  "selected_dataset (snd (get_schema d s)) = selected_dataset s"
  "selected_table (snd (get_schema d s)) = selected_table s"
  "initial_df (snd (get_schema d s)) = initial_df s"
  "plot_ready (snd (get_schema d s)) = plot_ready s"
  "chart_x (snd (get_schema d s)) = chart_x s"
  "chart_y (snd (get_schema d s)) = chart_y s"
  "chart_type_selected (snd (get_schema d s)) = chart_type_selected s"
  "last_schema (snd (get_schema d s)) = last_schema s"
  by (simp_all add: get_schema_def safe_bigquery_error_def st_show_def split_def Let_def
      split: option.splits)


lemma inv_get_schema: "inv construct s \<Longrightarrow> inv construct (snd (get_schema d s))"
  by (rule inv_cong [OF _ _ _ inv_run_query [of construct s "schema_query d"]]) simp_all

lemma get_dynamic_client_result:
  "fst (get_dynamic_client construct k s) =
     (case get_dynamic_client_cache s k of
        Some e \<Rightarrow> fst e
      | None \<Rightarrow> (case construct k of Inl e \<Rightarrow> None | Inr c \<Rightarrow> Some c))"
  by (simp add: get_dynamic_client_def get_dynamic_client_body_def split_def Let_def
      split: option.splits sum.splits)

lemma get_dynamic_client_keeps [simp]:
  "client (snd (get_dynamic_client construct k s)) = client s"
  "run_query_cache (snd (get_dynamic_client construct k s)) = run_query_cache s"
  "sent (snd (get_dynamic_client construct k s)) = sent s"
  by (simp_all add: get_dynamic_client_def get_dynamic_client_body_def split_def Let_def st_show_def
      split: option.splits sum.splits)

lemma get_dynamic_client_cache_after:
  "get_dynamic_client_cache (snd (get_dynamic_client construct k s)) =
     (case get_dynamic_client_cache s k of
        Some e \<Rightarrow> get_dynamic_client_cache s
      | None \<Rightarrow> (get_dynamic_client_cache s)
          (k \<mapsto> (case construct k of
                  Inl e \<Rightarrow> (None, [StError (''Invalid credentials: '' @ e)])
                | Inr c \<Rightarrow> (Some c, []))))"
  by (simp add: get_dynamic_client_def get_dynamic_client_body_def split_def Let_def st_show_def
      split: option.splits sum.splits)

lemma user_key_handler_keeps [simp]:
  "run_query_cache (snd (user_key_handler construct k s)) = run_query_cache s"
  "sent (snd (user_key_handler construct k s)) = sent s"
  by (simp_all add: user_key_handler_def split_def Let_def st_show_def split: option.splits)

lemma user_key_handler_client:
  "client (snd (user_key_handler construct k s)) =
     (if fst (user_key_handler construct k s)
      then fst (get_dynamic_client construct k (s\<lparr> user_key_json := Some k \<rparr>))
      else client s)"
  by (simp add: user_key_handler_def split_def Let_def st_show_def split: option.splits)

lemma user_key_handler_installs:
  "fst (user_key_handler construct k s) \<Longrightarrow> client (snd (user_key_handler construct k s)) \<noteq> None"
  by (simp add: user_key_handler_def split_def Let_def st_show_def split: option.splits if_splits)

lemma user_key_handler_dyn:
  "get_dynamic_client_cache (snd (user_key_handler construct k s)) =
     (if k = [] then get_dynamic_client_cache s
      else get_dynamic_client_cache (snd (get_dynamic_client construct k (s\<lparr> user_key_json := Some k \<rparr>))))"
  by (simp add: user_key_handler_def split_def Let_def st_show_def split: option.splits)

lemma inv_user_key_handler:
  assumes "inv construct s"
  shows "inv construct (snd (user_key_handler construct k s))"
  using assms unfolding inv_def
  by (auto simp: user_key_handler_dyn get_dynamic_client_cache_after
      split: option.splits if_splits sum.splits)

lemma detect_schema_change_keeps [simp]:
  "client (snd (detect_schema_change df s)) = client s"
  "run_query_cache (snd (detect_schema_change df s)) = run_query_cache s"
  "get_dynamic_client_cache (snd (detect_schema_change df s)) = get_dynamic_client_cache s"
  "sent (snd (detect_schema_change df s)) = sent s"
  by (simp_all add: detect_schema_change_def Let_def split: option.splits)

lemma submit_handler_main_keeps [simp]:
  "client (submit_handler_main sel s) = client s"
  "get_dynamic_client_cache (submit_handler_main sel s) = get_dynamic_client_cache s"
  "run_query_cache (submit_handler_main sel s) =
     (if blank (main_query_text s) then run_query_cache s
      else run_query_cache (snd (run_query (the (main_query_text s)) s)))"
  by (simp_all add: submit_handler_main_def split_def Let_def st_show_def)

lemma inv_submit_handler_main:
  assumes "inv construct s"
  shows "inv construct (submit_handler_main sel s)"
proof (cases "blank (main_query_text s)")
  case True
  then show ?thesis by (intro inv_cong [OF _ _ _ assms]) simp_all
next
  case False
  then show ?thesis
    by (intro inv_cong [OF _ _ _ inv_run_query [OF assms, of "the (main_query_text s)"]]) simp_all
qed

lemma show_table_preview_keeps [simp]:
  "client (snd (show_table_preview t s)) = client s"
  "run_query_cache (snd (show_table_preview t s)) = run_query_cache s"
  "get_dynamic_client_cache (snd (show_table_preview t s)) = get_dynamic_client_cache s"
  "sent (snd (show_table_preview t s)) = sent s"
  "selected_dataset (snd (show_table_preview t s)) = selected_dataset s"
  "schema (snd (show_table_preview t s)) = schema s"
  "selected_table (snd (show_table_preview t s)) = selected_table s"
  "initial_df (snd (show_table_preview t s)) = initial_df s"
  "plot_ready (snd (show_table_preview t s)) = plot_ready s"
  "chart_x (snd (show_table_preview t s)) = chart_x s"
  "chart_y (snd (show_table_preview t s)) = chart_y s"
  "chart_type_selected (snd (show_table_preview t s)) = chart_type_selected s"
  "last_schema (snd (show_table_preview t s)) = last_schema s"
  by (simp_all add: show_table_preview_def st_show_def split: option.splits sum.splits)

lemma build_main_view_keeps [simp]:
  "client (snd (build_main_view pd pt s)) = client s"
  "get_dynamic_client_cache (snd (build_main_view pd pt s)) = get_dynamic_client_cache s"
  "initial_df (snd (build_main_view pd pt s)) = initial_df s"
  "plot_ready (snd (build_main_view pd pt s)) = plot_ready s"
  "chart_x (snd (build_main_view pd pt s)) = chart_x s"
  "chart_y (snd (build_main_view pd pt s)) = chart_y s"
  "chart_type_selected (snd (build_main_view pd pt s)) = chart_type_selected s"
  "last_schema (snd (build_main_view pd pt s)) = last_schema s"
  by (simp_all add: build_main_view_def select_dataset_def split_def Let_def st_show_def
      split: option.splits sum.splits)

lemma build_main_view_cache:
  "run_query_cache (snd (build_main_view pd pt s)) = run_query_cache s \<or>
   (\<exists>sel. run_query_cache (snd (build_main_view pd pt s)) =
      run_query_cache (snd (get_schema sel (s\<lparr> selected_dataset := Some sel \<rparr>))))"
  by (simp add: build_main_view_def select_dataset_def split_def Let_def st_show_def
      split: option.splits sum.splits) blast

lemma inv_build_main_view:
  assumes "inv construct s"
  shows "inv construct (snd (build_main_view pd pt s))"
proof -
  consider (same) "run_query_cache (snd (build_main_view pd pt s)) = run_query_cache s"
    | (fetched) sel where "run_query_cache (snd (build_main_view pd pt s)) =
        run_query_cache (snd (get_schema sel (s\<lparr> selected_dataset := Some sel \<rparr>)))"
    using build_main_view_cache [of pd pt s] by blast
  then show ?thesis
  proof cases
    case same
    then show ?thesis by (intro inv_cong [OF _ _ _ assms]) simp_all
  next
    case fetched
    have "inv construct (s\<lparr> selected_dataset := Some sel \<rparr>)"
      by (rule inv_cong [OF _ _ _ assms]) simp_all
    then have "inv construct (snd (get_schema sel (s\<lparr> selected_dataset := Some sel \<rparr>)))"
      by (rule inv_get_schema)
    then show ?thesis
      by (rule inv_cong [rotated 3]) (simp_all add: fetched)
  qed
qed

lemma inv_evolves: "evolves construct s t \<Longrightarrow> inv construct s \<Longrightarrow> inv construct t"
proof (induction rule: evolves.induct)
  case stay
  then show ?case .
next
  case (save_key t key)
  then show ?case by (simp add: inv_user_key_handler)
next
  case (query t q)
  then show ?case by (simp add: inv_run_query)
next
  case (view t pd pt)
  then show ?case by (simp add: inv_build_main_view)
next
  case (submit t sel body)
  have "inv construct (t\<lparr> main_query_text := Some body \<rparr>)"
    by (rule inv_cong [OF _ _ _ submit.IH [OF submit.prems]]) simp_all
  then show ?case by (rule inv_submit_handler_main)
next
  case (pick_chart t x y kind)
  show ?case by (rule inv_cong [OF _ _ _ pick_chart.IH [OF pick_chart.prems]]) simp_all
next
  case (plot t)
  show ?case by (rule inv_cong [OF _ _ _ plot.IH [OF plot.prems]]) simp_all
next
  case (switch t u)
  show ?case by (rule inv_in_session [OF switch.IH [OF switch.prems]])
qed

lemma inv_reachable: "reachable construct s \<Longrightarrow> inv construct s"
  unfolding reachable_def by (erule inv_evolves) (rule inv_init)


section \<open>Properties of the query executor\<close>

lemma run_query_hit:
  "run_query_cache s q = Some (r, ms) \<Longrightarrow> run_query q s = (r, s\<lparr> shown := shown s @ ms \<rparr>)"
  by (simp add: run_query_def)

lemma run_query_stores:
  "\<exists>ms. run_query_cache (snd (run_query q s)) q = Some (fst (run_query q s), ms)"
  by (auto simp: run_query_def Let_def split: option.splits prod.splits)

lemma run_query_cache_persists:
  "run_query_cache s q = Some e \<Longrightarrow> run_query_cache (snd (run_query q' s)) q = Some e"
  by (auto simp: run_query_cache_after split: option.splits)

lemma get_schema_cache_persists:
  "run_query_cache s q = Some e \<Longrightarrow> run_query_cache (snd (get_schema d s)) q = Some e"
  by (simp add: run_query_cache_persists)

lemma build_main_view_cache_persists:
  assumes "run_query_cache s q = Some e"
  shows "run_query_cache (snd (build_main_view pd pt s)) q = Some e"
proof -
  have "run_query_cache (snd (get_schema sel (s\<lparr> selected_dataset := Some sel \<rparr>))) q = Some e" for sel
    by (rule get_schema_cache_persists) (simp add: assms)
  then show ?thesis
    using build_main_view_cache [of pd pt s] assms by auto
qed

lemma submit_handler_main_cache_persists:
  "run_query_cache s q = Some e \<Longrightarrow> run_query_cache (submit_handler_main sel s) q = Some e"
  by (simp add: run_query_cache_persists)

lemma evolves_cache_persists:
  "evolves construct s t \<Longrightarrow> run_query_cache s q = Some e \<Longrightarrow> run_query_cache t q = Some e"
proof (induction rule: evolves.induct)
  case stay
  then show ?case .
next
  case (save_key t key)
  then show ?case by simp
next
  case (query t q')
  then show ?case by (simp add: run_query_cache_persists)
next
  case (view t pd pt)
  then show ?case by (simp add: build_main_view_cache_persists)
next
  case (submit t sel body)
  then have "run_query_cache (t\<lparr> main_query_text := Some body \<rparr>) q = Some e" by simp
  then show ?case by (rule submit_handler_main_cache_persists)
next
  case (pick_chart t x y kind)
  then show ?case by simp
next
  case (plot t)
  then show ?case by simp
next
  case (switch t u)
  then show ?case by (simp add: in_session_def)
qed

lemma inv_cached_answer:
  "inv construct s \<Longrightarrow> run_query_cache s q = Some (r, ms) \<Longrightarrow> \<exists>co. r = answer co q"
  unfolding inv_def by blast

lemma run_query_answer:
  assumes "inv construct s"
  shows "\<exists>co. (run_query_cache s q = None \<longrightarrow> co = client s) \<and> fst (run_query q s) = answer co q"
proof (cases "run_query_cache s q")
  case None
  then show ?thesis
    by (simp add: run_query_def split_def Let_def run_query_body_answer)
next
  case (Some e)
  obtain co where "fst e = answer co q"
    using inv_cached_answer [OF assms, of q "fst e" "snd e"] Some by auto
  then show ?thesis using Some by (auto simp: run_query_def split_def)
qed

lemma inv_cached_client:
  "inv construct s \<Longrightarrow> get_dynamic_client_cache s k = Some (r, ms) \<Longrightarrow>
   r = (case construct k of Inl e \<Rightarrow> None | Inr c \<Rightarrow> Some c)"
  unfolding inv_def by blast

text \<open>
  What the submit handler does with a failure: the raw text goes to \<open>query_error\<close>,
  which no page shows; the page shows the fixed guidance and \<open>Query failed.\<close>
\<close>

lemma submit_failure:
  assumes "main_query_text s = Some q" and "\<not> blank (Some q)" and "client s = Some c"
    and "run_query_cache s q = None" and "query_and_wait c q = Inl e"
  shows "query_error (submit_handler_main sel s) = Some e"
    and "initial_df (submit_handler_main sel s) = None"
    and "shown (submit_handler_main sel s) =
           shown s @ [StError (safe_message ''Running SQL query''), StError ''Query failed.'']"
  using assms
  by (simp_all add: submit_handler_main_def run_query_def run_query_body_def Let_def
      safe_bigquery_error_def st_show_def)

lemma demo_answers:
  "query_and_wait demo_client ''SELECT 1 AS a, 2 AS b'' = Inr frame_ab"
  "query_and_wait demo_client ''SELECT nothing'' = Inl ''boom''"
  "query_and_wait denied_client ''SELECT nothing'' = Inl ''Insufficient permissions''"
  by (simp_all add: demo_client_def denied_client_def schema_query_def newline_def)

lemma second_session_reachable: "reachable demo_construct second_session_state"
  unfolding reachable_def second_session_state_def
  by (intro evolves.switch evolves.query evolves.save_key evolves.stay)

lemma second_session_facts:
  "client second_session_state = None"
  "sent second_session_state = [''SELECT 1 AS a, 2 AS b'']"
  "fst (run_query ''SELECT 1 AS a, 2 AS b'' second_session_state) = (Some frame_ab, None)"
  "sent (snd (run_query ''SELECT 1 AS a, 2 AS b'' second_session_state)) =
     [''SELECT 1 AS a, 2 AS b'']"
  "map_option fst (run_query_cache second_session_state ''SELECT 1 AS a, 2 AS b'') =
     Some (Some frame_ab, None)"
  by code_simp+

section \<open>Properties of key handling, columns and charts\<close>

lemma demo_good_key:
  "client (snd (user_key_handler demo_construct ''good key'' init_state)) = Some demo_client"
  by (simp add: user_key_handler_client user_key_handler_def get_dynamic_client_def
      get_dynamic_client_body_def demo_construct_def init_state_def split_def Let_def st_show_def)

lemma coerce_cell_looking: "coerce_cell numeric v \<noteq> None \<longleftrightarrow> numeric_looking numeric v"
  by (simp add: coerce_cell_def numeric_looking_def split: cell.splits)

lemma all_coerce:
  "list_all (\<lambda>v. coerce_cell numeric v \<noteq> None) xs \<longleftrightarrow> list_all (numeric_looking numeric) xs"
  unfolding coerce_cell_looking ..

lemma dtype_coerced:
  "dtype (coerce_column numeric c) = Number \<longleftrightarrow> quantitative numeric c"
  unfolding coerce_column_def to_numeric_ignore_def all_coerce quantitative_def by auto

lemma cname_coerced [simp]:
  "cname (coerce_column numeric c) = cname c"
  by (simp add: coerce_column_def to_numeric_ignore_def)

lemma numeric_cols_coerced:
  "a \<in> set (numeric_cols (coerce_columns numeric df)) \<longleftrightarrow> quantitative_axis numeric df a"
  unfolding numeric_cols_def coerce_columns_def quantitative_axis_def
  by (induction df) (auto simp: dtype_coerced)

lemma categorical_cols_some:
  "a \<in> set (categorical_cols (coerce_columns numeric df)) \<longleftrightarrow>
   list_ex (\<lambda>c. cname c = a \<and> \<not> quantitative numeric c) df"
  unfolding categorical_cols_def coerce_columns_def
  by (induction df) (auto simp: dtype_coerced)

lemma categorical_cols_coerced:
  assumes "distinct (map cname df)" and "a \<in> set (map cname df)"
  shows "a \<in> set (categorical_cols (coerce_columns numeric df)) \<longleftrightarrow>
         \<not> quantitative_axis numeric df a"
proof -
  have inj: "inj_on cname (set df)" using assms(1) by (simp add: distinct_map)
  obtain c where c: "c \<in> set df" "cname c = a" using assms(2) by auto
  have only: "c' = c" if "c' \<in> set df" "cname c' = a" for c'
    using inj c that by (auto dest: inj_onD)
  have "list_ex (\<lambda>c. cname c = a \<and> \<not> quantitative numeric c) df \<longleftrightarrow> \<not> quantitative numeric c"
    unfolding list_ex_iff using c only by blast
  moreover have "quantitative_axis numeric df a \<longleftrightarrow> quantitative numeric c"
    unfolding quantitative_axis_def list_ex_iff using c only by blast
  ultimately show ?thesis by (simp add: categorical_cols_some)
qed

lemma plotted_names:
  assumes "plotting_altair numeric (Some df) (Some x) (Some y) kind = Plotted ch"
  shows "distinct (map cname df)" and "x \<in> set (map cname df)" and "y \<in> set (map cname df)"
  using assms by (simp_all add: plotting_altair_def split: if_splits)

lemma plotted_chart:
  assumes "plotting_altair numeric (Some df) (Some x) (Some y) kind = Plotted ch"
  shows "ch = (encode (if kind = Some ''Scatter'' then Point
                       else if kind = Some ''Line'' then Line else Bar) x y
                 (legend_field (coerce_columns numeric df) x y)
                 (axis_type (coerce_columns numeric df) x)
                 (axis_type (coerce_columns numeric df) y))
               \<lparr> title := (case kind of None \<Rightarrow> ''None'' | Some k \<Rightarrow> k) @ '' Chart'' \<rparr>"
proof -
  have "\<not> empty_frame df" and "x \<in> set (map cname df)" and "y \<in> set (map cname df)"
    and "distinct (map cname df)"
    using assms by (simp_all add: plotting_altair_def split: if_splits)
  then show ?thesis
    using assms
    by (auto simp: plotting_altair_def Let_def make_scatter_chart_def make_line_chart_def
        make_bar_chart_def)
qed

lemma decimal_examples:
  "decimal ''1'' = Some 1" "decimal ''2'' = Some 2" "decimal ''bad'' = None"
  "decimal ''10'' = Some 10" "decimal ''20'' = Some 20" "decimal ''30'' = Some 30"
  by (simp_all add: decimal_def is_digit_def)

lemma score_quantitative:
  "\<not> quantitative_axis decimal frame_score ''score''" "quantitative_axis decimal frame_score ''n''"
  by (simp_all add: quantitative_axis_def quantitative_def numeric_looking_def frame_score_def
      decimal_examples)

lemma score_plot:
  "plotting_altair decimal (Some frame_score) (Some ''score'') (Some ''n'') (Some ''Scatter'') =
   Plotted \<lparr> mark = Point, x_enc = ''score:N'', x_title = ''score'', y_enc = ''n:Q'',
             y_title = ''n'', colour = ColourField ''score'', tooltip = [''score'', ''n''],
             title = ''Scatter Chart'' \<rparr>"
  by code_simp

lemma score_plot_swapped:
  "plotting_altair decimal (Some frame_score) (Some ''n'') (Some ''score'') (Some ''Line'') =
   Plotted \<lparr> mark = Line, x_enc = ''n:Q'', x_title = ''n'', y_enc = ''score:N'',
             y_title = ''score'', colour = ColourField ''score'', tooltip = [''n'', ''score''],
             title = ''Line Chart'' \<rparr>"
  by code_simp

lemma ab_plot:
  "plotting_altair decimal (Some frame_ab) (Some ''a'') (Some ''b'') (Some ''Bar'') =
   Plotted \<lparr> mark = Bar, x_enc = ''a:Q'', x_title = ''a'', y_enc = ''b:Q'',
             y_title = ''b'', colour = ColourValue ''steelblue'', tooltip = [''a'', ''b''],
             title = ''Bar Chart'' \<rparr>"
  by code_simp

lemma ab_quantitative:
  "quantitative_axis decimal frame_ab ''a''" "quantitative_axis decimal frame_ab ''b''"
  by (simp_all add: quantitative_axis_def quantitative_def frame_ab_def)

section \<open>Properties of the main view\<close>

lemma select_dataset_switch:
  assumes "Some sel \<noteq> selected_dataset s"
  shows "selected_dataset (select_dataset sel s) = Some sel"
    and "schema (select_dataset sel s) = fst (get_schema sel (s\<lparr> selected_dataset := Some sel \<rparr>))"
    and "selected_table (select_dataset sel s) = None"
  using assms by (simp_all add: select_dataset_def split_def Let_def)

lemma build_main_view_after_select:
  assumes "client s = Some c" and "list_datasets c = Inr ds" and "ds \<noteq> []"
  shows "selected_dataset (snd (build_main_view pd pt s)) =
           selected_dataset (select_dataset (selectbox ds pd) s)"
    and "schema (snd (build_main_view pd pt s)) = schema (select_dataset (selectbox ds pd) s)"
    and "selected_table (snd (build_main_view pd pt s)) =
           (case table_ids (schema (select_dataset (selectbox ds pd) s)) of
              None \<Rightarrow> selected_table (select_dataset (selectbox ds pd) s)
            | Some [] \<Rightarrow> selected_table (select_dataset (selectbox ds pd) s)
            | Some (a # as) \<Rightarrow> Some (selectbox (a # as) pt))"
  using assms
  by (simp_all add: build_main_view_def get_all_datasets_def Let_def st_show_def
      split: option.splits list.splits)

lemma chart_ready_reachable: "reachable demo_construct chart_ready_state"
proof -
  have "evolves demo_construct init_state result_ready_state"
    unfolding result_ready_state_def
    by (intro evolves.submit evolves.view evolves.save_key evolves.stay)
  then have "evolves demo_construct init_state
      (result_ready_state\<lparr> chart_x := Some ''a'', chart_y := Some ''b'',
                          chart_type_selected := Some ''Bar'' \<rparr>)"
    by (rule evolves.pick_chart)
  then have "evolves demo_construct init_state
      (result_ready_state\<lparr> chart_x := Some ''a'', chart_y := Some ''b'',
                          chart_type_selected := Some ''Bar'' \<rparr>\<lparr> plot_ready := True \<rparr>)"
    by (rule evolves.plot)
  then show ?thesis by (simp add: reachable_def chart_ready_state_def)
qed

lemma chart_ready_client: "client chart_ready_state = Some demo_client"
  by (simp add: chart_ready_state_def result_ready_state_def demo_good_key)

lemma chart_ready_facts:
  "selected_dataset chart_ready_state = Some ''d1''"
  "chart_x chart_ready_state = Some ''a''"
  "chart_y chart_ready_state = Some ''b''"
  "chart_type_selected chart_ready_state = Some ''Bar''"
  "plot_ready chart_ready_state"
  "initial_df chart_ready_state = Some frame_ab"
  by code_simp+

section \<open>Claims about the query executor\<close>

text \<open>
  C3, as the code has it. When the warehouse call fails with the text \<open>e\<close> (a client
  is active and the query is not memoised), \<open>run_query\<close> shows one error element,
  the fixed guidance of \<open>safe_bigquery_error\<close> labelled with the context
  \<open>Running SQL query\<close>; what is shown does not depend on the failure: it is the
  same with any other client that fails on the query, whatever the text of its failure.
  The error message returned in the pair is the raw text \<open>e\<close> itself.
\<close>

theorem run_query_failure:
  assumes "client s = Some c" and "run_query_cache s q = None" and "query_and_wait c q = Inl e"
  shows "fst (run_query q s) = (None, Some e) \<and>
         shown (snd (run_query q s)) = shown s @ [StError (safe_message ''Running SQL query'')] \<and>
         (\<forall>c' e'. query_and_wait c' q = Inl e' \<longrightarrow>
            shown (snd (run_query q (s\<lparr> client := Some c' \<rparr>))) = shown (snd (run_query q s)))"
  using assms
  by (simp add: run_query_def run_query_body_def Let_def safe_bigquery_error_def st_show_def)

text \<open>
  The failing query with the example client, which raises \<open>boom\<close>, and with the
  client that raises \<open>Insufficient permissions\<close>: the pair carries \<open>boom\<close>,
  and the page shows the same element with both.
\<close>

theorem run_query_failure_witness:
  "client (init_state\<lparr> client := Some demo_client \<rparr>) = Some demo_client \<and>
   run_query_cache (init_state\<lparr> client := Some demo_client \<rparr>) ''SELECT nothing'' = None \<and>
   query_and_wait demo_client ''SELECT nothing'' = Inl ''boom'' \<and>
   query_and_wait denied_client ''SELECT nothing'' = Inl ''Insufficient permissions'' \<and>
   fst (run_query ''SELECT nothing'' (init_state\<lparr> client := Some demo_client \<rparr>)) =
     (None, Some ''boom'') \<and>
   shown (snd (run_query ''SELECT nothing'' (init_state\<lparr> client := Some demo_client \<rparr>))) =
     [StError (safe_message ''Running SQL query'')] \<and>
   shown (snd (run_query ''SELECT nothing'' (init_state\<lparr> client := Some denied_client \<rparr>))) =
     [StError (safe_message ''Running SQL query'')]"
proof -
  let ?s = "init_state\<lparr> client := Some demo_client \<rparr>"
  have h1: "client ?s = Some demo_client" by simp
  have h2: "run_query_cache ?s ''SELECT nothing'' = None" by (simp add: init_state_def)
  have h3: "query_and_wait demo_client ''SELECT nothing'' = Inl ''boom''" by (rule demo_answers)
  have h4: "shown ?s = []" by (simp add: init_state_def)
  have h5: "query_and_wait denied_client ''SELECT nothing'' = Inl ''Insufficient permissions''"
    by (rule demo_answers)
  show ?thesis
    using run_query_failure [OF h1 h2 h3] h1 h2 h3 h4 h5 by simp
qed

text \<open>
  C3 as stated says that the error message \<open>run_query\<close> produces is distinct from
  the raw failure. The example client raises \<open>boom\<close>, and \<open>boom\<close> is the
  message returned.
\<close>

theorem raw_error_counterexample:
  "query_and_wait demo_client ''SELECT nothing'' = Inl ''boom'' \<and>
   fst (run_query ''SELECT nothing'' (init_state\<lparr> client := Some demo_client \<rparr>)) =
     (None, Some ''boom'')"
  by (simp add: demo_answers run_query_def run_query_body_def init_state_def Let_def
      safe_bigquery_error_def st_show_def)

text \<open>
  C4. Calling \<open>run_query\<close> twice with the same query text, the client unchanged
  (the call itself leaves it so): the second call returns what the first returned and
  dispatches nothing to the warehouse.
\<close>

theorem run_query_twice:
  "fst (run_query q (snd (run_query q s))) = fst (run_query q s) \<and>
   sent (snd (run_query q (snd (run_query q s)))) = sent (snd (run_query q s)) \<and>
   client (snd (run_query q s)) = client s"
proof -
  obtain ms where "run_query_cache (snd (run_query q s)) q = Some (fst (run_query q s), ms)"
    using run_query_stores [of q s] by blast
  then show ?thesis by (simp add: run_query_hit)
qed

text \<open>
  C5. In every state a process can be in, \<open>run_query\<close> returns a pair of which
  exactly one component is not \<open>None\<close>, and the pair is what the body gives for the
  query with some client or with none (on a miss: with the client of the session, or with
  none when it has none): with no client, no result and the no-client message; when the
  warehouse answers, the result and no error; when the call raises, no result and the
  text of the failure.
\<close>

theorem run_query_exactly_one:
  assumes "reachable construct s"
  shows "exactly_one (fst (run_query q s)) \<and>
         (\<exists>co. (run_query_cache s q = None \<longrightarrow> co = client s) \<and>
               fst (run_query q s) =
                 (case co of
                    None \<Rightarrow> (None, Some ''No BigQuery client available.'')
                  | Some c \<Rightarrow>
                      (case query_and_wait c q of
                         Inr df \<Rightarrow> (Some df, None)
                       | Inl e \<Rightarrow> (None, Some e))))"
proof -
  from run_query_answer [OF inv_reachable [OF assms], of q]
  obtain co where co: "run_query_cache s q = None \<longrightarrow> co = client s"
    and r: "fst (run_query q s) = answer co q"
    by (elim exE conjE)
  have m: "answer co q =
      (case co of
         None \<Rightarrow> (None, Some ''No BigQuery client available.'')
       | Some c \<Rightarrow>
           (case query_and_wait c q of
              Inr df \<Rightarrow> (Some df, None)
            | Inl e \<Rightarrow> (None, Some e)))"
    unfolding answer_def no_client_message_def by (rule refl)
  show ?thesis
  proof (intro conjI exI [of _ co])
    show "exactly_one (fst (run_query q s))" unfolding r by (rule answer_exactly_one)
    show "run_query_cache s q = None \<longrightarrow> co = client s" by (rule co)
    show "fst (run_query q s) =
      (case co of
         None \<Rightarrow> (None, Some ''No BigQuery client available.'')
       | Some c \<Rightarrow>
           (case query_and_wait c q of
              Inr df \<Rightarrow> (Some df, None)
            | Inl e \<Rightarrow> (None, Some e)))"
      unfolding r by (rule m)
  qed
qed

text \<open>
  With the example client installed: a query it answers, a query it fails on; and in a
  new session without a client.
\<close>

theorem run_query_exactly_one_witness:
  "reachable demo_construct (snd (user_key_handler demo_construct ''good key'' init_state)) \<and>
   fst (run_query ''SELECT 1 AS a, 2 AS b''
     (snd (user_key_handler demo_construct ''good key'' init_state))) = (Some frame_ab, None) \<and>
   fst (run_query ''SELECT nothing''
     (snd (user_key_handler demo_construct ''good key'' init_state))) = (None, Some ''boom'') \<and>
   fst (run_query ''SELECT nothing'' init_state) = (None, Some ''No BigQuery client available.'')"
proof -
  let ?s = "snd (user_key_handler demo_construct ''good key'' init_state)"
  have h: "reachable demo_construct ?s"
    unfolding reachable_def by (rule evolves.save_key) (rule evolves.stay)
  have h0: "reachable demo_construct init_state"
    unfolding reachable_def by (rule evolves.stay)
  have m: "run_query_cache ?s q = None" for q by (simp add: init_state_def)
  have m0: "run_query_cache init_state q = None" for q by (simp add: init_state_def)
  have c0: "client init_state = None" by (simp add: init_state_def)
  show ?thesis
    using run_query_exactly_one [OF h, of "''SELECT 1 AS a, 2 AS b''"]
      run_query_exactly_one [OF h, of "''SELECT nothing''"]
      run_query_exactly_one [OF h0, of "''SELECT nothing''"]
      h m m0 c0 demo_good_key demo_answers
    by auto
qed

text \<open>
  C6, as the code has it. When the session has no client, \<open>run_query\<close> dispatches
  nothing to the warehouse; it returns \<open>None\<close> with the message
  \<open>No BigQuery client available.\<close> when the query text is not memoised, and the
  memoised pair when it is.
\<close>

theorem run_query_without_client:
  assumes "client s = None"
  shows "sent (snd (run_query q s)) = sent s \<and>
         fst (run_query q s) =
           (case run_query_cache s q of
              None \<Rightarrow> (None, Some ''No BigQuery client available.'')
            | Some (r, ms) \<Rightarrow> r)"
  using assms
  by (simp add: run_query_def run_query_body_no_client no_client_message_def
      split: option.splits)

text \<open>
  A new session: the first call misses, the second is answered from the store; and the
  second session of a process whose first session ran the query with its client.
\<close>

theorem run_query_without_client_witness:
  "client init_state = None \<and>
   fst (run_query ''SELECT 1 AS a, 2 AS b'' init_state) =
     (None, Some ''No BigQuery client available.'') \<and>
   sent (snd (run_query ''SELECT 1 AS a, 2 AS b'' init_state)) = [] \<and>
   client second_session_state = None \<and>
   fst (run_query ''SELECT 1 AS a, 2 AS b'' second_session_state) = (Some frame_ab, None) \<and>
   sent (snd (run_query ''SELECT 1 AS a, 2 AS b'' second_session_state)) =
     sent second_session_state"
proof -
  have h0: "client init_state = None" by (simp add: init_state_def)
  have m0: "run_query_cache init_state ''SELECT 1 AS a, 2 AS b'' = None"
    by (simp add: init_state_def)
  have s0: "sent init_state = []" by (simp add: init_state_def)
  have h1: "client second_session_state = None" by (rule second_session_facts)
  show ?thesis
    using run_query_without_client [OF h0, of "''SELECT 1 AS a, 2 AS b''"]
      run_query_without_client [OF h1, of "''SELECT 1 AS a, 2 AS b''"]
      h0 m0 s0 h1 second_session_facts(3)
    by simp
qed

text \<open>
  C6 as stated says a call without a client returns the no-client failure. The second
  session has no client, the store holds the result the first session fetched for the
  query, and the call returns that result.
\<close>

theorem no_client_counterexample:
  "reachable demo_construct second_session_state \<and>
   client second_session_state = None \<and>
   fst (run_query ''SELECT 1 AS a, 2 AS b'' second_session_state) = (Some frame_ab, None)"
  by (simp add: second_session_reachable second_session_facts)

text \<open>
  C10. Once a pair is memoised for a query text, every later call of \<open>run_query\<close>
  with that text returns it and dispatches nothing, whatever happened in between, saving
  a key (which installs or replaces the client) and the turn of another session included.
\<close>

theorem cache_keyed_by_query_only:
  assumes "run_query_cache s q = Some (r, ms)" and "evolves construct s t"
  shows "fst (run_query q t) = r \<and> sent (snd (run_query q t)) = sent t"
proof -
  have "run_query_cache t q = Some (r, ms)"
    using assms by (simp add: evolves_cache_persists)
  then show ?thesis by (simp add: run_query_hit)
qed

text \<open>
  The no-client failure is memoised; the key is then saved and the client would answer
  the query, yet the call returns the memoised failure.
\<close>

theorem cache_keyed_by_query_only_witness:
  "run_query_cache (snd (run_query ''SELECT 1 AS a, 2 AS b'' init_state)) ''SELECT 1 AS a, 2 AS b'' =
     Some ((None, Some ''No BigQuery client available.''), []) \<and>
   evolves demo_construct (snd (run_query ''SELECT 1 AS a, 2 AS b'' init_state))
     (snd (user_key_handler demo_construct ''good key''
        (snd (run_query ''SELECT 1 AS a, 2 AS b'' init_state)))) \<and>
   client (snd (user_key_handler demo_construct ''good key''
        (snd (run_query ''SELECT 1 AS a, 2 AS b'' init_state)))) = Some demo_client \<and>
   query_and_wait demo_client ''SELECT 1 AS a, 2 AS b'' = Inr frame_ab \<and>
   fst (run_query ''SELECT 1 AS a, 2 AS b''
     (snd (user_key_handler demo_construct ''good key''
        (snd (run_query ''SELECT 1 AS a, 2 AS b'' init_state))))) =
     (None, Some ''No BigQuery client available.'')"
proof -
  let ?q = "''SELECT 1 AS a, 2 AS b''"
  let ?s = "snd (run_query ?q init_state)"
  let ?t = "snd (user_key_handler demo_construct ''good key'' ?s)"
  have h1: "run_query_cache ?s ?q = Some ((None, Some ''No BigQuery client available.''), [])"
    by (simp add: run_query_def run_query_body_def init_state_def no_client_message_def)
  have h2: "evolves demo_construct ?s ?t"
    by (rule evolves.save_key) (rule evolves.stay)
  have h3: "client ?t = Some demo_client"
    by (simp add: user_key_handler_client user_key_handler_def get_dynamic_client_def
        get_dynamic_client_body_def demo_construct_def init_state_def split_def Let_def st_show_def)
  show ?thesis
    using cache_keyed_by_query_only [OF h1 h2] h1 h2 h3 demo_answers(1) by simp
qed

section \<open>Claims about credentials, schema changes and charts\<close>

text \<open>
  C9. When the key is empty or \<open>construct\<close> fails on it, \<open>user_key_handler\<close>
  returns \<open>False\<close>, its last status element is an error, and the client of the
  session is what it was: a stored handle stays, an unset one stays unset.
\<close>

theorem user_key_handler_rejects:
  assumes "reachable construct s" and "key = [] \<or> construct key = Inl e"
  shows "\<not> fst (user_key_handler construct key s) \<and>
         client (snd (user_key_handler construct key s)) = client s \<and>
         (\<exists>m. last (shown (snd (user_key_handler construct key s))) = StError m)"
proof (cases "key = []")
  case True
  then show ?thesis by (simp add: user_key_handler_def st_show_def)
next
  case False
  with assms(2) have bad: "construct key = Inl e" by simp
  let ?s = "s\<lparr> user_key_json := Some key \<rparr>"
  have "inv construct ?s"
    by (rule inv_cong [OF _ _ _ inv_reachable [OF assms(1)]]) simp_all
  then have "fst (get_dynamic_client construct key ?s) = None"
    using bad inv_cached_client [of construct ?s key]
    by (cases "get_dynamic_client_cache ?s key") (auto simp: get_dynamic_client_result)
  then show ?thesis
    using False by (simp add: user_key_handler_def split_def Let_def st_show_def)
qed

text \<open>
  The key \<open>{"project_id":"demo"}\<close>, once after a good key was saved and once in a
  fresh session.
\<close>

theorem user_key_handler_rejects_witness:
  \<open>reachable demo_construct (snd (user_key_handler demo_construct ''good key'' init_state)) \<and>
   demo_construct ''{"project_id":"demo"}'' = Inl ''bad key'' \<and>
   \<not> fst (user_key_handler demo_construct ''{"project_id":"demo"}''
           (snd (user_key_handler demo_construct ''good key'' init_state))) \<and>
   client (snd (user_key_handler demo_construct ''{"project_id":"demo"}''
           (snd (user_key_handler demo_construct ''good key'' init_state)))) = Some demo_client \<and>
   \<not> fst (user_key_handler demo_construct ''{"project_id":"demo"}'' init_state) \<and>
   client (snd (user_key_handler demo_construct ''{"project_id":"demo"}'' init_state)) = None\<close>
proof -
  let ?k = \<open>''{"project_id":"demo"}''\<close>
  let ?s = "snd (user_key_handler demo_construct ''good key'' init_state)"
  have h1: "reachable demo_construct ?s"
    unfolding reachable_def by (rule evolves.save_key) (rule evolves.stay)
  have h0: "reachable demo_construct init_state"
    unfolding reachable_def by (rule evolves.stay)
  have h2: "demo_construct ?k = Inl ''bad key''" by (simp add: demo_construct_def)
  have h3: "?k = [] \<or> demo_construct ?k = Inl ''bad key''" using h2 by simp
  have h4: "client init_state = None" by (simp add: init_state_def)
  show ?thesis
    using user_key_handler_rejects [OF h1 h3] user_key_handler_rejects [OF h0 h3]
      h1 h2 h4 demo_good_key by simp
qed

text \<open>
  C2, as the code has it. With a result that has columns, \<open>detect_schema_change\<close>
  returns \<open>True\<close> exactly when no tuple is stored or the stored tuple differs from
  the ordered tuple of the column names, and the stored tuple is that tuple afterwards.
  With \<open>None\<close>, or a value without columns, it returns \<open>False\<close> and leaves
  the session as it is, on the first call as on any other.
\<close>

theorem detect_schema_change_result:
  "detect_schema_change (Some d) s =
     (last_schema s \<noteq> Some (map cname d), s\<lparr> last_schema := Some (map cname d) \<rparr>) \<and>
   detect_schema_change None s = (False, s)"
  by (auto simp: detect_schema_change_def Let_def split: option.splits)

text \<open>
  The same result twice, then its columns in the other order, and \<open>None\<close> in a
  fresh session.
\<close>

theorem detect_schema_change_result_witness:
  "fst (detect_schema_change (Some frame_ab) init_state) \<and>
   \<not> fst (detect_schema_change (Some frame_ab)
           (snd (detect_schema_change (Some frame_ab) init_state))) \<and>
   fst (detect_schema_change (Some frame_ba)
         (snd (detect_schema_change (Some frame_ab) init_state))) \<and>
   \<not> fst (detect_schema_change None init_state)"
  using detect_schema_change_result [of frame_ab init_state]
    detect_schema_change_result [of frame_ab "init_state\<lparr> last_schema := Some (map cname frame_ab) \<rparr>"]
    detect_schema_change_result [of frame_ba "init_state\<lparr> last_schema := Some (map cname frame_ab) \<rparr>"]
  by (simp add: init_state_def frame_ab_def frame_ba_def)

text \<open>
  C2 as stated says the first call after initialisation returns \<open>True\<close>
  unconditionally. In a fresh session a call with \<open>None\<close> returns \<open>False\<close>.
\<close>

theorem first_call_counterexample:
  "last_schema init_state = None \<and> fst (detect_schema_change None init_state) = False"
  by (simp add: init_state_def detect_schema_change_def)

text \<open>
  C7. In a chart that \<open>plotting_altair\<close> builds, an axis is encoded as quantitative
  (\<open>Q\<close>) exactly when the column of that name is quantitative in the words of the
  specification, and as categorical (\<open>N\<close>) otherwise.
\<close>

theorem axis_kind:
  assumes "plotting_altair numeric (Some df) (Some x) (Some y) kind = Plotted ch"
  shows "x_enc ch = x @ (if quantitative_axis numeric df x then '':Q'' else '':N'') \<and>
         y_enc ch = y @ (if quantitative_axis numeric df y then '':Q'' else '':N'')"
  by (simp add: plotted_chart [OF assms] encode_def axis_type_def numeric_cols_coerced)

text \<open>The column \<open>score\<close> with the values 1, 2, bad is categorical.\<close>

theorem axis_kind_witness:
  "plotting_altair decimal (Some frame_score) (Some ''score'') (Some ''n'') (Some ''Scatter'') =
   Plotted \<lparr> mark = Point, x_enc = ''score:N'', x_title = ''score'', y_enc = ''n:Q'',
             y_title = ''n'', colour = ColourField ''score'', tooltip = [''score'', ''n''],
             title = ''Scatter Chart'' \<rparr> \<and>
   \<not> quantitative_axis decimal frame_score ''score'' \<and>
   quantitative_axis decimal frame_score ''n''"
  using axis_kind [OF score_plot] score_plot score_quantitative by simp

text \<open>
  C8. In a chart that \<open>plotting_altair\<close> builds, the legend field is the x axis when
  that is categorical, else the y axis when that is categorical, else there is none. The
  chart is coloured by the legend field when there is one and its name is not empty.
\<close>

theorem legend_choice:
  assumes "plotting_altair numeric (Some df) (Some x) (Some y) kind = Plotted ch"
  shows "legend_field (coerce_columns numeric df) x y =
           (if \<not> quantitative_axis numeric df x then Some x
            else if \<not> quantitative_axis numeric df y then Some y
            else None) \<and>
         chart_legend ch =
           (case legend_field (coerce_columns numeric df) x y of
              None \<Rightarrow> None
            | Some f \<Rightarrow> (if f = [] then None else Some f))"
proof -
  note n = plotted_names [OF assms]
  have "legend_field (coerce_columns numeric df) x y =
           (if \<not> quantitative_axis numeric df x then Some x
            else if \<not> quantitative_axis numeric df y then Some y
            else None)"
    by (simp add: legend_field_def categorical_cols_coerced [OF n(1) n(2)]
        categorical_cols_coerced [OF n(1) n(3)])
  moreover have "chart_legend ch =
           (case legend_field (coerce_columns numeric df) x y of
              None \<Rightarrow> None
            | Some f \<Rightarrow> (if f = [] then None else Some f))"
    by (simp add: plotted_chart [OF assms] encode_def chart_legend_def split: option.splits)
  ultimately show ?thesis by simp
qed

text \<open>A categorical x axis, a categorical y axis, and two quantitative axes.\<close>

theorem legend_choice_witness:
  "legend_field (coerce_columns decimal frame_score) ''score'' ''n'' = Some ''score'' \<and>
   legend_field (coerce_columns decimal frame_score) ''n'' ''score'' = Some ''score'' \<and>
   legend_field (coerce_columns decimal frame_ab) ''a'' ''b'' = None"
  using legend_choice [OF score_plot] legend_choice [OF score_plot_swapped]
    legend_choice [OF ab_plot] score_quantitative ab_quantitative
  by simp

section \<open>Claims about the dataset selection\<close>

text \<open>
  C1, as the code has it. When the main view is drawn with a dataset other than the
  stored one, the dataset is stored, the table list is replaced by the one fetched for
  it, and the selected table is unset and then, when the new list has tables, set to the
  table picked among them. The chart selection (x, y, kind), \<open>plot_ready\<close> and the
  current result are left as they were.
\<close>

theorem dataset_switch:
  assumes "client s = Some c" and "list_datasets c = Inr ds" and "ds \<noteq> []"
    and "Some (selectbox ds pd) \<noteq> selected_dataset s"
  shows "(let sel = selectbox ds pd; t = snd (build_main_view pd pt s) in
          selected_dataset t = Some sel \<and>
          schema t = fst (get_schema sel (s\<lparr> selected_dataset := Some sel \<rparr>)) \<and>
          selected_table t =
            (case table_ids (schema t) of
               None \<Rightarrow> None
             | Some [] \<Rightarrow> None
             | Some (a # as) \<Rightarrow> Some (selectbox (a # as) pt)) \<and>
          chart_x t = chart_x s \<and> chart_y t = chart_y s \<and>
          chart_type_selected t = chart_type_selected s \<and>
          plot_ready t = plot_ready s \<and> initial_df t = initial_df s)"
  using build_main_view_after_select [OF assms(1-3), of pd pt] select_dataset_switch [OF assms(4)]
  by (simp add: Let_def split: option.splits list.splits)

text \<open>Switching from \<open>d1\<close> to \<open>d2\<close> in the session with a chart drawn.\<close>

theorem dataset_switch_witness:
  "client chart_ready_state = Some demo_client \<and>
   list_datasets demo_client = Inr [''d1'', ''d2''] \<and>
   Some (selectbox [''d1'', ''d2''] ''d2'') \<noteq> selected_dataset chart_ready_state \<and>
   selected_dataset (snd (build_main_view ''d2'' ''t2'' chart_ready_state)) = Some ''d2'' \<and>
   selected_table (snd (build_main_view ''d2'' ''t2'' chart_ready_state)) = Some ''t2'' \<and>
   chart_x (snd (build_main_view ''d2'' ''t2'' chart_ready_state)) = Some ''a'' \<and>
   plot_ready (snd (build_main_view ''d2'' ''t2'' chart_ready_state))"
proof -
  have h1: "client chart_ready_state = Some demo_client" by (rule chart_ready_client)
  have h2: "list_datasets demo_client = Inr [''d1'', ''d2'']" by (simp add: demo_client_def)
  have h3: "[''d1'', ''d2''] \<noteq> []" by simp
  have h4: "Some (selectbox [''d1'', ''d2''] ''d2'') \<noteq> selected_dataset chart_ready_state"
    by (simp add: chart_ready_facts selectbox_def)
  have h5: "selectbox [''d1'', ''d2''] ''d2'' = ''d2''" by (simp add: selectbox_def)
  have h6: "table_ids (fst (get_schema ''d2'' (chart_ready_state\<lparr> selected_dataset := Some ''d2'' \<rparr>)))
              = Some [''t1'', ''t2'']"
    by code_simp
  have h7: "selectbox [''t1'', ''t2''] ''t2'' = ''t2''" by (simp add: selectbox_def)
  show ?thesis
    using dataset_switch [OF h1 h2 h3 h4, of "''t2''"] h1 h2 h4 h5 h6 h7 chart_ready_facts
    by (simp add: Let_def)
qed

text \<open>
  C1 as stated says the switch resets the chart selection and discards the result and the
  chart. In the session with a chart drawn, after the switch to \<open>d2\<close> the axes, the
  kind, \<open>plot_ready\<close> and the result are what they were, and the chart is drawn
  again.
\<close>

theorem dataset_switch_counterexample:
  "selected_dataset chart_ready_state = Some ''d1'' \<and>
   initial_df chart_ready_state = Some frame_ab \<and>
   plot_ready chart_ready_state \<and>
   selected_dataset (snd (build_main_view ''d2'' ''t2'' chart_ready_state)) = Some ''d2'' \<and>
   chart_x (snd (build_main_view ''d2'' ''t2'' chart_ready_state)) = Some ''a'' \<and>
   chart_y (snd (build_main_view ''d2'' ''t2'' chart_ready_state)) = Some ''b'' \<and>
   chart_type_selected (snd (build_main_view ''d2'' ''t2'' chart_ready_state)) = Some ''Bar'' \<and>
   plot_ready (snd (build_main_view ''d2'' ''t2'' chart_ready_state)) \<and>
   initial_df (snd (build_main_view ''d2'' ''t2'' chart_ready_state)) = Some frame_ab \<and>
   render_plot_if_ready decimal (snd (build_main_view ''d2'' ''t2'' chart_ready_state)) =
     Some (Plotted \<lparr> mark = Bar, x_enc = ''a:Q'', x_title = ''a'', y_enc = ''b:Q'',
                       y_title = ''b'', colour = ColourValue ''steelblue'',
                       tooltip = [''a'', ''b''], title = ''Bar Chart'' \<rparr>)"
  by code_simp

end
